theory Spec2Isabelle
  imports Main "HOL-Library.Word" "HOL-Library.Sublist" "HOL-Library.AList"
begin

unbundle bit_operations_syntax

section \<open>Bytes, hexadecimal text and plumbing.Hash\<close>

text \<open>
  A Go \<^verbatim>\<open>byte\<close> is an 8-bit word and a Go \<^verbatim>\<open>string\<close> is a sequence of bytes, which is
  what \<^typ>\<open>string\<close> is in HOL. go-git's \<^verbatim>\<open>plumbing.Hash\<close> is \<^verbatim>\<open>[20]byte\<close>; it is
  modelled as a byte list, and every hash that the program builds (\<open>NewHash\<close>, the SHA-1
  digest) has length 20, which is proved below.
\<close>

type_synonym byte = "8 word"
type_synonym Hash = "byte list"

definition bytes_of :: "string \<Rightarrow> byte list" where
  "bytes_of s = map of_char s"

definition hextable :: string where
  "hextable = ''0123456789abcdef''"

text \<open>\<^verbatim>\<open>hex.EncodeToString\<close>, which \<^verbatim>\<open>plumbing.Hash.String()\<close> returns: two lowercase digits a byte.\<close>

definition hex_byte :: "byte \<Rightarrow> string" where
  "hex_byte b = [hextable ! (unat b div 16), hextable ! (unat b mod 16)]"

definition Hash_String :: "Hash \<Rightarrow> string" where
  "Hash_String h = concat (map hex_byte h)"

text \<open>\<^verbatim>\<open>encoding/hex\<close>: the value of one digit, upper or lower case.\<close>

definition fromHexChar :: "char \<Rightarrow> byte option" where
  "fromHexChar c =
     (let n = (of_char c :: nat) in
      if 48 \<le> n \<and> n \<le> 57 then Some (of_nat (n - 48))
      else if 97 \<le> n \<and> n \<le> 102 then Some (of_nat (n - 87))
      else if 65 \<le> n \<and> n \<le> 70 then Some (of_nat (n - 55))
      else None)"

text \<open>
  \<^verbatim>\<open>hex.DecodeString\<close> returns the bytes decoded before the first error together with the
  error; \<open>NewHash\<close> drops the error (\<^verbatim>\<open>b, _ := hex.DecodeString(s)\<close>), so only the bytes
  are modelled. Decoding goes pair by pair and stops at the first character that is not a
  digit; a trailing single character decodes to nothing.
\<close>

fun hex_DecodeString :: "string \<Rightarrow> byte list" where
  "hex_DecodeString (p # q # rest) =
     (case fromHexChar p of
        None \<Rightarrow> []
      | Some a \<Rightarrow>
          (case fromHexChar q of
             None \<Rightarrow> []
           | Some b \<Rightarrow> (push_bit 4 a OR b) # hex_DecodeString rest))"
| "hex_DecodeString [p] = []"
| "hex_DecodeString [] = []"

text \<open>
  \<^verbatim>\<open>plumbing.NewHash\<close>: \<^verbatim>\<open>var h Hash; copy(h[:], b)\<close> copies at most 20 bytes into a zeroed
  array.
\<close>

definition NewHash :: "string \<Rightarrow> Hash" where
  "NewHash s = (let b = hex_DecodeString s in take 20 b @ replicate (20 - length b) 0)"

section \<open>crypto/sha1\<close>

text \<open>
  SHA-1 as \<^verbatim>\<open>crypto/sha1\<close> computes it (FIPS 180-4). The 32-bit words are integers with
  the wrap-around written out (\<open>mod 2 ^ 32\<close>).
\<close>

type_synonym u32 = int

definition add32 :: "u32 \<Rightarrow> u32 \<Rightarrow> u32" where
  "add32 x y = (x + y) mod 2 ^ 32"

definition rotl32 :: "nat \<Rightarrow> u32 \<Rightarrow> u32" where
  "rotl32 n x = (x * 2 ^ n) mod 2 ^ 32 + x div 2 ^ (32 - n)"

definition not32 :: "u32 \<Rightarrow> u32" where
  "not32 x = 2 ^ 32 - 1 - x"

definition be_u32 :: "byte list \<Rightarrow> u32" where
  "be_u32 bs = foldl (\<lambda>acc b. acc * 256 + uint b) 0 (take 4 bs)"

definition u32_bytes :: "u32 \<Rightarrow> byte list" where
  "u32_bytes w =
     [of_int (w div 2 ^ 24 mod 256), of_int (w div 2 ^ 16 mod 256),
      of_int (w div 2 ^ 8 mod 256), of_int (w mod 256)]"

text \<open>The length of the message in bits, as 64 bits, the most significant byte first.\<close>

definition len_bytes :: "nat \<Rightarrow> byte list" where
  "len_bytes n = map (\<lambda>i. of_nat (n div 2 ^ (8 * i) mod 256)) [7, 6, 5, 4, 3, 2, 1, 0]"

definition sha1_pad :: "byte list \<Rightarrow> byte list" where
  "sha1_pad m =
     m @ [0x80] @ replicate ((64 - (length m + 9) mod 64) mod 64) 0 @ len_bytes (8 * length m)"

fun words_of :: "nat \<Rightarrow> byte list \<Rightarrow> u32 list" where
  "words_of 0 bs = []"
| "words_of (Suc n) bs = be_u32 bs # words_of n (drop 4 bs)"

definition sha1_f :: "nat \<Rightarrow> u32 \<Rightarrow> u32 \<Rightarrow> u32 \<Rightarrow> u32" where
  "sha1_f t b c d =
     (if t < 20 then (b AND c) OR (not32 b AND d)
      else if t < 40 then b XOR c XOR d
      else if t < 60 then (b AND c) OR (b AND d) OR (c AND d)
      else b XOR c XOR d)"

definition sha1_k :: "nat \<Rightarrow> u32" where
  "sha1_k t =
     (if t < 20 then 0x5A827999 else if t < 40 then 0x6ED9EBA1
      else if t < 60 then 0x8F1BBCDC else 0xCA62C1D6)"

type_synonym sha1_state = "u32 \<times> u32 \<times> u32 \<times> u32 \<times> u32"

text \<open>
  The rounds of one block, one for each round number of the list. \<open>w\<close> is the window of
  the next sixteen words of the message schedule: the head is the word of this round,
  and the word sixteen rounds ahead is appended.
\<close>

fun sha1_rounds :: "nat list \<Rightarrow> u32 list \<Rightarrow> sha1_state \<Rightarrow> sha1_state" where
  "sha1_rounds [] w st = st"
| "sha1_rounds (t # ts) w (a, b, c, d, e) =
     sha1_rounds ts
       (tl w @ [rotl32 1 (w ! 13 XOR w ! 8 XOR w ! 2 XOR w ! 0)])
       (add32 (add32 (add32 (add32 (rotl32 5 a) (sha1_f t b c d)) e) (sha1_k t)) (hd w),
        a, rotl32 30 b, c, d)"

fun add_state :: "sha1_state \<Rightarrow> sha1_state \<Rightarrow> sha1_state" where
  "add_state (a, b, c, d, e) (a', b', c', d', e') =
     (add32 a a', add32 b b', add32 c c', add32 d d', add32 e e')"

definition sha1_block :: "sha1_state \<Rightarrow> byte list \<Rightarrow> sha1_state" where
  "sha1_block h blk = add_state h (sha1_rounds [0..<80] (words_of 16 blk) h)"

fun sha1_blocks :: "nat \<Rightarrow> sha1_state \<Rightarrow> byte list \<Rightarrow> sha1_state" where
  "sha1_blocks 0 h bs = h"
| "sha1_blocks (Suc n) h bs = sha1_blocks n (sha1_block h (take 64 bs)) (drop 64 bs)"

definition sha1_init :: sha1_state where
  "sha1_init = (0x67452301, 0xEFCDAB89, 0x98BADCFE, 0x10325476, 0xC3D2E1F0)"

fun state_bytes :: "sha1_state \<Rightarrow> byte list" where
  "state_bytes (a, b, c, d, e) = concat (map u32_bytes [a, b, c, d, e])"

definition sha1_sum :: "byte list \<Rightarrow> byte list" where
  "sha1_sum m = state_bytes (sha1_blocks (length (sha1_pad m) div 64) sha1_init (sha1_pad m))"

text \<open>
  The \<^verbatim>\<open>hash.Hash\<close> object of \<^verbatim>\<open>sha1.New()\<close>: its state is the bytes written so far;
  \<^verbatim>\<open>Write\<close> appends and \<^verbatim>\<open>Sum(nil)\<close> returns the digest of what was written.
\<close>

type_synonym hasher = "byte list"

definition sha1_New :: hasher where
  "sha1_New = []"

definition Write :: "hasher \<Rightarrow> byte list \<Rightarrow> hasher" where
  "Write h bs = h @ bs"

definition Sum :: "hasher \<Rightarrow> byte list" where
  "Sum h = sha1_sum h"

section \<open>fmt.Sprintf\<close>

text \<open>The verb \<^verbatim>\<open>%d\<close> on the \<^verbatim>\<open>int64\<close> of \<^verbatim>\<open>Time.Unix()\<close>: decimal, with a minus sign.\<close>

fun utoa :: "nat \<Rightarrow> string" where
  "utoa n = (if n < 10 then [''0123456789'' ! n] else utoa (n div 10) @ [''0123456789'' ! (n mod 10)])"

declare utoa.simps [simp del]

definition fmt_d :: "int \<Rightarrow> string" where
  "fmt_d i = (if i < 0 then CHR ''-'' # utoa (nat (- i)) else utoa (nat i))"

section \<open>The underlying commit (go-git)\<close>

text \<open>
  \<^verbatim>\<open>object.Signature\<close> and \<^verbatim>\<open>object.Commit\<close>, with the fields the program reads. A
  \<^verbatim>\<open>time.Time\<close> is modelled by its \<^verbatim>\<open>Unix()\<close> seconds, the only reading the hash takes.
\<close>

record object_Signature =
  sig_Name :: string
  sig_Email :: string
  sig_When :: int

record object_Commit =
  commit_TreeHash :: Hash
  commit_ParentHashes :: "Hash list"
  commit_Author :: object_Signature
  commit_Committer :: object_Signature
  commit_Message :: string

section \<open>The hash engine: computeMGitHash\<close>

text \<open>
  \<^verbatim>\<open>authorStr := fmt.Sprintf("%s <%s> %d %s", Name, Email, When.Unix(), pubkey)\<close>.
\<close>

definition authorStr :: "object_Commit \<Rightarrow> string \<Rightarrow> string" where
  "authorStr commit pubkey =
     sig_Name (commit_Author commit) @ '' <'' @ sig_Email (commit_Author commit) @ ''> ''
       @ fmt_d (sig_When (commit_Author commit)) @ '' '' @ pubkey"

text \<open>
  \<^verbatim>\<open>committerStr := fmt.Sprintf("%s <%s> %d", Name, Email, When.Unix(), pubkey)\<close>: the
  format has three verbs and four operands, and \<^verbatim>\<open>fmt\<close> appends the operand left over as
  \<^verbatim>\<open>%!(EXTRA string=...)\<close>.
\<close>

definition committerStr :: "object_Commit \<Rightarrow> string \<Rightarrow> string" where
  "committerStr commit pubkey =
     sig_Name (commit_Committer commit) @ '' <'' @ sig_Email (commit_Committer commit) @ ''> ''
       @ fmt_d (sig_When (commit_Committer commit)) @ ''%!(EXTRA string='' @ pubkey @ '')''"

definition computeMGitHash :: "object_Commit \<Rightarrow> string list \<Rightarrow> string \<Rightarrow> Hash" where
  "computeMGitHash commit parentMGitHashes pubkey =
     (let hasher = sha1_New;
          hasher = Write hasher (commit_TreeHash commit);
          hasher = foldl (\<lambda>h parentHashStr. Write h (NewHash parentHashStr)) hasher parentMGitHashes;
          hasher = Write hasher (bytes_of (authorStr commit pubkey));
          hasher = Write hasher (bytes_of (committerStr commit pubkey));
          hasher = Write hasher (bytes_of (committerStr commit pubkey));
          mgitHash = Sum hasher
      in take 20 mgitHash)"

text \<open>The byte sequence that \<open>computeMGitHash\<close> has written when it takes the digest.\<close>

definition mgit_preimage :: "object_Commit \<Rightarrow> string list \<Rightarrow> string \<Rightarrow> byte list" where
  "mgit_preimage commit parentMGitHashes pubkey =
     commit_TreeHash commit @ concat (map NewHash parentMGitHashes)
       @ bytes_of (authorStr commit pubkey)
       @ bytes_of (committerStr commit pubkey) @ bytes_of (committerStr commit pubkey)"

section \<open>Errors\<close>

text \<open>
  The Go code reports failures as \<^verbatim>\<open>fmt.Errorf\<close> values; each constructor stands for the
  messages named beside it. \<open>RuntimePanic\<close> is not a returned error: it marks a run-time
  panic of the Go program (a slice bound out of range, a nil pointer dereference).
\<close>

datatype error =
    InvalidRecord         \<comment> \<open>"MGit hash cannot be empty"\<close>
  | HashTooShort          \<comment> \<open>"MGit hash too short, need at least 4 characters"\<close>
  | NotFound              \<comment> \<open>"no object found with hash prefix", "commit object not found",
                              "reference not found", "HEAD not found"\<close>
  | Ambiguous             \<comment> \<open>"ambiguous hash prefix ... matches multiple objects"\<close>
  | IOFailure             \<comment> \<open>"failed to write commit object"\<close>
  | RepoOpenFailed        \<comment> \<open>"error opening Git repository"\<close>
  | NoMappings            \<comment> \<open>"no MGit mappings found in the repository"\<close>
  | MappingsParseError    \<comment> \<open>"error parsing mappings file", "failed to unmarshal hash mappings"\<close>
  | GitHeadError          \<comment> \<open>"error getting Git HEAD"\<close>
  | DetachedHeadUnmapped  \<comment> \<open>"could not find MGit hash for detached HEAD"\<close>
  | RuntimePanic

section \<open>Overlay records and the mapping table\<close>

text \<open>
  \<^verbatim>\<open>MGitSignature\<close>, \<^verbatim>\<open>MCommitStruct\<close> and \<^verbatim>\<open>NostrCommitMapping\<close>. The pointers
  \<^verbatim>\<open>*MGitSignature\<close> may be nil, hence the options. \<^verbatim>\<open>MGitObjectType\<close> is a string type.
  The fields of a mapping carry the prefix \<open>map_\<close>, since \<^verbatim>\<open>GitHash\<close> and \<^verbatim>\<open>MGitHash\<close> are
  fields of the commit record too.
\<close>

type_synonym MGitObjectType = string

definition MGitCommitObject :: MGitObjectType where
  "MGitCommitObject = ''commit''"

record MGitSignature =
  Name :: string
  Email :: string
  Pubkey :: string
  When :: int

record MCommitStruct =
  Type :: MGitObjectType
  MGitHash :: string
  GitHash :: string
  TreeHash :: string
  ParentHashes :: "string list"
  Author :: "MGitSignature option"
  Committer :: "MGitSignature option"
  Message :: string
  Metadata :: "(string \<times> string) list"

record NostrCommitMapping =
  map_GitHash :: string
  map_MGitHash :: string
  map_Pubkey :: string

section \<open>The storage directory\<close>

text \<open>
  The state of the directory \<^verbatim>\<open>RootDir\<close> (usually \<^verbatim>\<open>.mgit\<close>):
  \<^item> \<open>objects\<close>: the files \<^verbatim>\<open>objects/<dir>/<name>\<close>, keyed by the pair of the shard directory
    and the entry name, each holding a commit record. A file is written as JSON and read
    back from it; the encoding is taken to be lossless, so the file holds the record.
    The first binding of a key is the file; a shard directory without entries is not
    told apart from a missing one (both list no entry).
  \<^item> \<open>refs\<close>: the reference files, a map from their path under the root to their content.
  \<^item> \<open>HEAD\<close>: the content of the file \<^verbatim>\<open>HEAD\<close>, if it exists.
  \<^item> \<open>hash_mappings\<close>: \<^verbatim>\<open>mappings/hash_mappings.json\<close>; \<open>nostr_mappings\<close>: the legacy file
    \<^verbatim>\<open>nostr_mappings.json\<close>. A mapping file is missing, holds text that does not parse, or
    holds a table.
  File-system faults other than the ones the code provokes itself are not modelled.
\<close>

datatype mappings_file = Missing | Garbled | Table "NostrCommitMapping list"

record MGitStorage =
  objects :: "((string \<times> string) \<times> MCommitStruct) list"
  refs :: "string \<rightharpoonup> string"
  HEAD :: "string option"
  hash_mappings :: mappings_file
  nostr_mappings :: mappings_file

definition Initialize :: "MGitStorage \<Rightarrow> MGitStorage" where
  "Initialize s = (case HEAD s of None \<Rightarrow> s\<lparr>HEAD := Some ''ref: refs/heads/master''\<rparr> | Some _ \<Rightarrow> s)"

text \<open>
  \<open>StoreCommit\<close> sets the type of the caller's record through the pointer, so it returns
  the record as it left it together with the new state. \<^verbatim>\<open>commit.MGitHash[:2]\<close> panics on
  a hash of one character. For a hash of two characters the path of the object is the
  shard directory itself, and writing the file fails.
\<close>

definition StoreCommit :: "MGitStorage \<Rightarrow> MCommitStruct \<Rightarrow> error + (MCommitStruct \<times> MGitStorage)" where
  "StoreCommit s commit =
     (if MGitHash commit = [] then Inl InvalidRecord
      else if length (MGitHash commit) < 2 then Inl RuntimePanic
      else
        let commit' = commit\<lparr>Type := MGitCommitObject\<rparr>;
            pfx = take 2 (MGitHash commit);
            suffix = drop 2 (MGitHash commit)
        in if suffix = [] then Inl IOFailure
           else Inr (commit', s\<lparr>objects := AList.update (pfx, suffix) commit' (objects s)\<rparr>))"

text \<open>\<^verbatim>\<open>ioutil.ReadDir\<close> of a shard directory: the names of its entries, each once.\<close>

definition ReadDir :: "MGitStorage \<Rightarrow> string \<Rightarrow> string list" where
  "ReadDir s dir = remdups (map (snd \<circ> fst) (filter (\<lambda>e. fst (fst e) = dir) (objects s)))"

text \<open>
  For the empty prefix the directory read is \<^verbatim>\<open>objects\<close> itself, whose entries are the
  shard directories. \<^verbatim>\<open>ReadDir\<close> sorts by name; the callers only count the matches and
  take the only one, so the order is left as it is.
\<close>

definition findObjectByPrefix :: "MGitStorage \<Rightarrow> string \<Rightarrow> string list" where
  "findObjectByPrefix s pfx =
     (if length pfx \<le> 2 then
        (if pfx = [] then remdups (map (fst \<circ> fst) (objects s))
         else map (\<lambda>name. pfx @ name) (ReadDir s pfx))
      else
        let dirPrefix = take 2 pfx; filePrefix = drop 2 pfx
        in map (\<lambda>name. dirPrefix @ name) (filter (\<lambda>name. prefix filePrefix name) (ReadDir s dirPrefix)))"

definition GetCommit :: "MGitStorage \<Rightarrow> string \<Rightarrow> error + MCommitStruct" where
  "GetCommit s mgitHash =
     (if length mgitHash < 4 then Inl HashTooShort
      else
        case (if length mgitHash < 40 then
                (case findObjectByPrefix s mgitHash of
                   [] \<Rightarrow> Inl NotFound
                 | [m] \<Rightarrow> Inr m
                 | _ \<Rightarrow> Inl Ambiguous)
              else Inr mgitHash) of
          Inl e \<Rightarrow> Inl e
        | Inr h \<Rightarrow>
            (case map_of (objects s) (take 2 h, drop 2 h) of
               None \<Rightarrow> Inl NotFound
             | Some commit \<Rightarrow> Inr commit))"

definition normRef :: "string \<Rightarrow> string" where
  "normRef refName = (if prefix ''refs/'' refName then refName else ''refs/heads/'' @ refName)"

definition UpdateRef :: "MGitStorage \<Rightarrow> string \<Rightarrow> string \<Rightarrow> MGitStorage" where
  "UpdateRef s refName mgitHash = s\<lparr>refs := (refs s)(normRef refName \<mapsto> mgitHash)\<rparr>"

definition GetRef :: "MGitStorage \<Rightarrow> string \<Rightarrow> error + string" where
  "GetRef s refName =
     (case refs s (normRef refName) of None \<Rightarrow> Inl NotFound | Some h \<Rightarrow> Inr h)"

definition UpdateHead :: "MGitStorage \<Rightarrow> string \<Rightarrow> MGitStorage" where
  "UpdateHead s refName = s\<lparr>HEAD := Some (''ref: '' @ normRef refName)\<rparr>"

definition GetHead :: "MGitStorage \<Rightarrow> error + string" where
  "GetHead s =
     (case HEAD s of
        None \<Rightarrow> Inl NotFound
      | Some content \<Rightarrow> Inr (if prefix ''ref: '' content then drop 5 content else content))"

definition GetHeadCommit :: "MGitStorage \<Rightarrow> error + MCommitStruct" where
  "GetHeadCommit s =
     (case GetHead s of
        Inl e \<Rightarrow> Inl e
      | Inr head \<Rightarrow>
          if prefix ''refs/'' head then
            (case GetRef s head of Inl e \<Rightarrow> Inl e | Inr hash \<Rightarrow> GetCommit s hash)
          else GetCommit s head)"

section \<open>The mapping table\<close>

text \<open>The index of the first element that satisfies \<open>P\<close>: the loop that breaks at its first match.\<close>

fun first_index :: "('a \<Rightarrow> bool) \<Rightarrow> 'a list \<Rightarrow> nat option" where
  "first_index P [] = None"
| "first_index P (x # xs) = (if P x then Some 0 else map_option Suc (first_index P xs))"

text \<open>
  The update that \<open>StoreMapping\<close> and \<open>StoreCommitNostrMapping\<close> both make on the table they
  have read: \<^verbatim>\<open>mappings[i] = newMapping\<close> at the first record that shares either hash, and
  \<^verbatim>\<open>append\<close> when the loop found none.
\<close>

definition shares_hash :: "NostrCommitMapping \<Rightarrow> NostrCommitMapping \<Rightarrow> bool" where
  "shares_hash newMapping mapping =
     (map_GitHash mapping = map_GitHash newMapping \<or> map_MGitHash mapping = map_MGitHash newMapping)"

definition add_or_update :: "NostrCommitMapping \<Rightarrow> NostrCommitMapping list \<Rightarrow> NostrCommitMapping list" where
  "add_or_update newMapping mappings =
     (case first_index (shares_hash newMapping) mappings of
        Some i \<Rightarrow> mappings[i := newMapping]
      | None \<Rightarrow> mappings @ [newMapping])"

definition write_mapping :: "mappings_file \<Rightarrow> NostrCommitMapping \<Rightarrow> error + mappings_file" where
  "write_mapping file newMapping =
     (case file of
        Missing \<Rightarrow> Inr (Table (add_or_update newMapping []))
      | Garbled \<Rightarrow> Inl MappingsParseError
      | Table mappings \<Rightarrow> Inr (Table (add_or_update newMapping mappings)))"

definition StoreMapping :: "MGitStorage \<Rightarrow> string \<Rightarrow> string \<Rightarrow> string \<Rightarrow> error + MGitStorage" where
  "StoreMapping s gitHash mgitHash pubkey =
     (case write_mapping (hash_mappings s)
             \<lparr>map_GitHash = gitHash, map_MGitHash = mgitHash, map_Pubkey = pubkey\<rparr> of
        Inl e \<Rightarrow> Inl e
      | Inr file \<Rightarrow> Inr (s\<lparr>hash_mappings := file\<rparr>))"

definition StoreCommitNostrMapping :: "MGitStorage \<Rightarrow> Hash \<Rightarrow> Hash \<Rightarrow> string \<Rightarrow> error + MGitStorage" where
  "StoreCommitNostrMapping s gitHash mgitHash pubkey =
     (case write_mapping (nostr_mappings s)
             \<lparr>map_GitHash = Hash_String gitHash, map_MGitHash = Hash_String mgitHash,
              map_Pubkey = pubkey\<rparr> of
        Inl e \<Rightarrow> Inl e
      | Inr file \<Rightarrow> Inr (s\<lparr>nostr_mappings := file\<rparr>))"

definition GetMappings :: "MGitStorage \<Rightarrow> error + NostrCommitMapping list" where
  "GetMappings s =
     (case hash_mappings s of
        Missing \<Rightarrow> Inr []
      | Garbled \<Rightarrow> Inl MappingsParseError
      | Table mappings \<Rightarrow> Inr mappings)"

definition GetMGitHashFromGit :: "MGitStorage \<Rightarrow> string \<Rightarrow> error + string" where
  "GetMGitHashFromGit s gitHash =
     (case GetMappings s of
        Inl e \<Rightarrow> Inl e
      | Inr mappings \<Rightarrow>
          (case find (\<lambda>mapping. map_GitHash mapping = gitHash) mappings of
             None \<Rightarrow> Inl NotFound
           | Some mapping \<Rightarrow> Inr (map_MGitHash mapping)))"

section \<open>The underlying repository\<close>

text \<open>
  What the program asks of go-git: \<^verbatim>\<open>repo.CommitObject\<close>, the branch references that
  \<^verbatim>\<open>repo.References()\<close> enumerates (short name and target), and \<^verbatim>\<open>repo.Head()\<close>, which
  fails, names a branch, or is detached at a commit.
\<close>

datatype git_head = OnBranch string | Detached Hash

record git_repo =
  CommitObject :: "Hash \<Rightarrow> object_Commit option"
  Branches :: "(string \<times> Hash) list"
  Head :: "git_head option"

section \<open>Reconstruction: reconstructMGitObjects\<close>

text \<open>
  The inner loop over the parents of the underlying commit: the overlay hash of the first
  mapping whose source hash is the parent's is appended; the loop over the mappings ends
  without appending anything when there is none.
\<close>

definition reconstruct_parents :: "NostrCommitMapping list \<Rightarrow> Hash list \<Rightarrow> string list" where
  "reconstruct_parents mappings parentHashes =
     concat (map (\<lambda>parentGitHash.
        case find (\<lambda>m. map_GitHash m = Hash_String parentGitHash) mappings of
          None \<Rightarrow> []
        | Some m \<Rightarrow> [map_MGitHash m]) parentHashes)"

definition reconstructed_commit ::
  "NostrCommitMapping list \<Rightarrow> NostrCommitMapping \<Rightarrow> object_Commit \<Rightarrow> MCommitStruct" where
  "reconstructed_commit mappings mapping gitCommit =
     \<lparr>Type = MGitCommitObject,
      MGitHash = map_MGitHash mapping,
      GitHash = map_GitHash mapping,
      TreeHash = Hash_String (commit_TreeHash gitCommit),
      ParentHashes = reconstruct_parents mappings (commit_ParentHashes gitCommit),
      Author = Some \<lparr>Name = sig_Name (commit_Author gitCommit),
                     Email = sig_Email (commit_Author gitCommit),
                     Pubkey = map_Pubkey mapping,
                     When = sig_When (commit_Author gitCommit)\<rparr>,
      Committer = Some \<lparr>Name = sig_Name (commit_Committer gitCommit),
                        Email = sig_Email (commit_Committer gitCommit),
                        Pubkey = map_Pubkey mapping,
                        When = sig_When (commit_Committer gitCommit)\<rparr>,
      Message = commit_Message gitCommit,
      Metadata = [(''version'', ''1.0'')]\<rparr>"

text \<open>
  The loops return the state of the directory together with the error that ended the run,
  if any: what was written before stays written. After a record is stored the progress
  line prints \<^verbatim>\<open>mapping.MGitHash[:7]\<close>, which panics on a hash shorter than seven
  characters; so do the lines printed after a reference and after a detached HEAD are
  written.
\<close>

text \<open>\<^verbatim>\<open>fmt.Sprintf("refs/heads/%s", branchName)\<close>.\<close>

definition branch_ref :: "string \<Rightarrow> string" where
  "branch_ref branchName = ''refs/heads/'' @ branchName"

fun reconstruct_commits ::
  "git_repo \<Rightarrow> NostrCommitMapping list \<Rightarrow> NostrCommitMapping list \<Rightarrow> MGitStorage
     \<Rightarrow> error option \<times> MGitStorage" where
  "reconstruct_commits repo mappings [] s = (None, s)"
| "reconstruct_commits repo mappings (mapping # rest) s =
     (case GetCommit s (map_MGitHash mapping) of
        Inr _ \<Rightarrow> reconstruct_commits repo mappings rest s
      | Inl _ \<Rightarrow>
          (case CommitObject repo (NewHash (map_GitHash mapping)) of
             None \<Rightarrow> reconstruct_commits repo mappings rest s
           | Some gitCommit \<Rightarrow>
               (case StoreCommit s (reconstructed_commit mappings mapping gitCommit) of
                  Inl err \<Rightarrow>
                    if err = RuntimePanic then (Some RuntimePanic, s)
                    else reconstruct_commits repo mappings rest s
                | Inr (commit', s') \<Rightarrow>
                    if length (map_MGitHash mapping) < 7 then (Some RuntimePanic, s')
                    else reconstruct_commits repo mappings rest s')))"

fun reconstruct_refs ::
  "NostrCommitMapping list \<Rightarrow> (string \<times> Hash) list \<Rightarrow> MGitStorage \<Rightarrow> error option \<times> MGitStorage" where
  "reconstruct_refs mappings [] s = (None, s)"
| "reconstruct_refs mappings ((branchName, hash) # rest) s =
     (case find (\<lambda>mapping. map_GitHash mapping = Hash_String hash) mappings of
        None \<Rightarrow> reconstruct_refs mappings rest s
      | Some mapping \<Rightarrow>
          let s' = UpdateRef s (branch_ref branchName) (map_MGitHash mapping)
          in if length (map_MGitHash mapping) < 7 then (Some RuntimePanic, s')
             else reconstruct_refs mappings rest s')"

definition reconstruct_head ::
  "NostrCommitMapping list \<Rightarrow> git_head option \<Rightarrow> MGitStorage \<Rightarrow> error option \<times> MGitStorage" where
  "reconstruct_head mappings head s =
     (case head of
        None \<Rightarrow> (Some GitHeadError, s)
      | Some (OnBranch branchName) \<Rightarrow> (None, s\<lparr>HEAD := Some (''ref: '' @ branch_ref branchName)\<rparr>)
      | Some (Detached hash) \<Rightarrow>
          let mgitHash =
                (case find (\<lambda>mapping. map_GitHash mapping = Hash_String hash) mappings of
                   None \<Rightarrow> []
                 | Some mapping \<Rightarrow> map_MGitHash mapping)
          in if mgitHash = [] then (Some DetachedHeadUnmapped, s)
             else
               let s' = s\<lparr>HEAD := Some mgitHash\<rparr>
               in if length mgitHash < 7 then (Some RuntimePanic, s') else (None, s'))"

text \<open>
  \<open>repo\<close> is \<open>None\<close> when \<^verbatim>\<open>git.PlainOpen\<close> fails. The mapping table is the file
  \<^verbatim>\<open>mappings/hash_mappings.json\<close> of the directory itself.
\<close>

definition reconstructMGitObjects :: "git_repo option \<Rightarrow> MGitStorage \<Rightarrow> error option \<times> MGitStorage" where
  "reconstructMGitObjects repo s =
     (case repo of
        None \<Rightarrow> (Some RepoOpenFailed, s)
      | Some r \<Rightarrow>
          (case hash_mappings s of
             Missing \<Rightarrow> (Some NoMappings, s)
           | Garbled \<Rightarrow> (Some MappingsParseError, s)
           | Table mappings \<Rightarrow>
               (case reconstruct_commits r mappings mappings (Initialize s) of
                  (Some e, s1) \<Rightarrow> (Some e, s1)
                | (None, s1) \<Rightarrow>
                    (case reconstruct_refs mappings (Branches r) s1 of
                       (Some e, s2) \<Rightarrow> (Some e, s2)
                     | (None, s2) \<Rightarrow> reconstruct_head mappings (Head r) s2))))"

section \<open>Verification: HandleMGitVerify\<close>

text \<open>
  Every string that \<open>GetCommit\<close> can load is a prefix of the path of a stored object, so
  only finitely many can be loaded: the traversal below ends.
\<close>

lemma ReadDir_entry:
  assumes "name \<in> set (ReadDir s dir)"
  shows "\<exists>e \<in> set (objects s). fst e = (dir, name)"
proof -
  from assms obtain e where e: "e \<in> set (objects s)" "fst (fst e) = dir" "snd (fst e) = name"
    by (auto simp: ReadDir_def)
  from e(2,3) have "fst e = (dir, name)"
    by (simp add: prod_eq_iff)
  with e(1) show ?thesis
    by blast
qed

lemma GetCommit_loads_prefix:
  assumes "GetCommit s k = Inr c"
  shows "\<exists>e \<in> set (objects s). prefix k (fst (fst e) @ snd (fst e))"
proof (cases "length k < 40")
  case False
  with assms have "map_of (objects s) (take 2 k, drop 2 k) = Some c"
    by (auto simp: GetCommit_def split: if_splits option.splits)
  then have "((take 2 k, drop 2 k), c) \<in> set (objects s)"
    by (rule map_of_SomeD)
  then show ?thesis
    by (rule bexI [rotated]) simp
next
  case True
  with assms have len: "4 \<le> length k"
    by (auto simp: GetCommit_def split: if_splits)
  from assms True len obtain m where m: "findObjectByPrefix s k = [m]"
    by (auto simp: GetCommit_def split: if_splits list.splits sum.splits)
  then have "m \<in> set (findObjectByPrefix s k)"
    by simp
  with len obtain name where name: "name \<in> set (ReadDir s (take 2 k))" "prefix (drop 2 k) name"
    by (auto simp: findObjectByPrefix_def Let_def)
  from name(1) obtain e where e: "e \<in> set (objects s)" "fst e = (take 2 k, name)"
    using ReadDir_entry by blast
  from name(2) have "prefix (take 2 k @ drop 2 k) (take 2 k @ name)"
    by (simp only: same_prefix_prefix)
  then have "prefix k (take 2 k @ name)"
    by (simp only: append_take_drop_id)
  then have "prefix k (fst (fst e) @ snd (fst e))"
    using e(2) by simp
  with e(1) show ?thesis
    by blast
qed

lemma finite_loadable: "finite {k. \<exists>c. GetCommit s k = Inr c}"
proof -
  have "{k. \<exists>c. GetCommit s k = Inr c}
          \<subseteq> (\<Union>e \<in> set (objects s). set (prefixes (fst (fst e) @ snd (fst e))))"
    using GetCommit_loads_prefix by fastforce
  then show ?thesis
    by (rule finite_subset) simp
qed

text \<open>
  The first loop of \<open>HandleMGitVerify\<close>: a breadth-first traversal with the queue \<open>queue\<close>.
  \<open>commits\<close> lists the Go map \<^verbatim>\<open>commits\<close> in insertion order; \<^verbatim>\<open>visited\<close> is set for the
  same keys, so it is the set of keys of \<open>commits\<close>. A hash that cannot be loaded is
  reported and dropped: the loop goes on with the rest of the queue.
\<close>

function build_graph ::
  "MGitStorage \<Rightarrow> string list \<Rightarrow> (string \<times> MCommitStruct) list \<Rightarrow> (string \<times> MCommitStruct) list" where
  "build_graph s [] commits = commits"
| "build_graph s (current # queue) commits =
     (if current \<in> fst ` set commits then build_graph s queue commits
      else
        case GetCommit s current of
          Inl err \<Rightarrow> build_graph s queue commits
        | Inr commit \<Rightarrow>
            build_graph s
              (queue @ filter (\<lambda>parent. parent \<notin> fst ` set (commits @ [(current, commit)]))
                         (ParentHashes commit))
              (commits @ [(current, commit)]))"
  by pat_completeness auto
termination
proof (relation "measures
    [\<lambda>(s, queue, commits). card ({k. \<exists>c. GetCommit s k = Inr c} - fst ` set commits),
     \<lambda>(s, queue, commits). length queue]", goal_cases)
  case 1
  show ?case by simp
next
  case (2 s current queue commits)
  show ?case by simp
next
  case (3 s current queue commits err)
  show ?case by simp
next
  case (4 s current queue commits commit)
  have "{k. \<exists>c. GetCommit s k = Inr c} - fst ` set (commits @ [(current, commit)])
          \<subset> {k. \<exists>c. GetCommit s k = Inr c} - fst ` set commits"
    using 4 by auto
  then have "card ({k. \<exists>c. GetCommit s k = Inr c} - fst ` set (commits @ [(current, commit)]))
               < card ({k. \<exists>c. GetCommit s k = Inr c} - fst ` set commits)"
    by (intro psubset_card_mono finite_Diff finite_loadable)
  then show ?case by simp
qed

text \<open>
  The second loop, over the map \<^verbatim>\<open>commits\<close>. \<open>repo\<close> is \<open>None\<close> when \<^verbatim>\<open>getRepo()\<close> cannot
  open the repository and exits. \<^verbatim>\<open>commit.Author.Pubkey\<close> dereferences the author, which
  panics when the stored record has none. Go ranges over a map in no fixed order; the
  list order is used here, and the result does not depend on it (\<open>verify_commits_result\<close>
  below).
\<close>

fun verify_commits :: "git_repo option \<Rightarrow> (string \<times> MCommitStruct) list \<Rightarrow> bool \<Rightarrow> error + bool" where
  "verify_commits repo [] valid = Inr valid"
| "verify_commits repo ((hash, commit) # rest) valid =
     (case repo of
        None \<Rightarrow> Inl RepoOpenFailed
      | Some r \<Rightarrow>
          (case CommitObject r (NewHash (GitHash commit)) of
             None \<Rightarrow> verify_commits repo rest False
           | Some gitCommit \<Rightarrow>
               (case Author commit of
                  None \<Rightarrow> Inl RuntimePanic
                | Some author \<Rightarrow>
                    if Hash_String (computeMGitHash gitCommit (ParentHashes commit) (Pubkey author)) \<noteq> hash
                    then verify_commits repo rest False
                    else verify_commits repo rest valid)))"

text \<open>
  \<open>Inl\<close>: the command ends before a verdict (no HEAD commit, no repository, a panic);
  \<open>Inr valid\<close>: the verdict that the command prints, exiting with status 1 when it is
  \<open>False\<close>.
\<close>

definition HandleMGitVerify :: "git_repo option \<Rightarrow> MGitStorage \<Rightarrow> error + bool" where
  "HandleMGitVerify repo s =
     (case GetHeadCommit s of
        Inl e \<Rightarrow> Inl e
      | Inr headCommit \<Rightarrow> verify_commits repo (build_graph s [MGitHash headCommit] []) True)"

section \<open>Commit creation: the parents of MGitCommit\<close>

text \<open>
  The loop of \<open>MGitCommit\<close> that collects the overlay hashes of the parents of the commit
  just created: the hash that \<open>GetMGitHashFromGit\<close> finds, and the source hash itself as
  a fallback when the lookup fails.
\<close>

definition MGitCommit_parents :: "MGitStorage \<Rightarrow> Hash list \<Rightarrow> string list" where
  "MGitCommit_parents storage parentHashes =
     map (\<lambda>parentGitHash.
        case GetMGitHashFromGit storage (Hash_String parentGitHash) of
          Inr mgitHash \<Rightarrow> mgitHash
        | Inl err \<Rightarrow> Hash_String parentGitHash) parentHashes"

section \<open>A small repository\<close>

text \<open>
  A repository of two commits, used to run the definitions: a root commit and its child,
  the tip of the branch \<^verbatim>\<open>master\<close>. Only the child has an overlay record; it was committed
  with the identity key \<^verbatim>\<open>npub\<close> when the root had no mapping, so its overlay parent is
  the source hash of the root (the fallback of \<open>MGitCommit\<close>), and \<open>hex_M\<close> is the
  overlay hash that \<open>computeMGitHash\<close> gives it.
\<close>

definition hex_T :: string where
  "hex_T = ''2222222222222222222222222222222222222222''"

definition hex_R :: string where
  "hex_R = ''1111111111111111111111111111111111111111''"

definition hex_C :: string where
  "hex_C = ''3333333333333333333333333333333333333333''"

definition hex_M :: string where
  "hex_M = ''2fcf928c8b4efc5ceb93654ae841ef68328baa12''"

definition ex_sig :: object_Signature where
  "ex_sig = \<lparr>sig_Name = ''A'', sig_Email = ''a@b'', sig_When = 17\<rparr>"

definition ex_root :: object_Commit where
  "ex_root =
     \<lparr>commit_TreeHash = NewHash hex_T, commit_ParentHashes = [],
      commit_Author = ex_sig, commit_Committer = ex_sig, commit_Message = ''first''\<rparr>"

definition ex_child :: object_Commit where
  "ex_child =
     \<lparr>commit_TreeHash = NewHash hex_T, commit_ParentHashes = [NewHash hex_R],
      commit_Author = ex_sig, commit_Committer = ex_sig, commit_Message = ''second''\<rparr>"

definition ex_repo :: git_repo where
  "ex_repo =
     \<lparr>CommitObject = (\<lambda>h. if h = NewHash hex_C then Some ex_child
                           else if h = NewHash hex_R then Some ex_root else None),
      Branches = [(''master'', NewHash hex_C)],
      Head = Some (OnBranch ''master'')\<rparr>"

definition ex_mappings :: "NostrCommitMapping list" where
  "ex_mappings = [\<lparr>map_GitHash = hex_C, map_MGitHash = hex_M, map_Pubkey = ''npub''\<rparr>]"

definition empty_storage :: MGitStorage where
  "empty_storage =
     \<lparr>objects = [], refs = Map.empty, HEAD = None, hash_mappings = Missing,
      nostr_mappings = Missing\<rparr>"

section \<open>Inputs for the examples\<close>




text \<open>
  A mapping table of two records: the first has the source hash \<open>hex_C\<close>, the second the
  overlay hash \<open>hex_M\<close>. No hash occurs twice in either column.
\<close>

definition ex_table :: "NostrCommitMapping list" where
  "ex_table =
     [\<lparr>map_GitHash = hex_C, map_MGitHash = hex_T, map_Pubkey = ''npub''\<rparr>,
      \<lparr>map_GitHash = hex_R, map_MGitHash = hex_M, map_Pubkey = ''npub''\<rparr>]"

text \<open>
  The record of the child commit as \<open>MGitCommit\<close> stored it, and the storage directory
  after that commit.
\<close>

definition ex_record :: MCommitStruct where
  "ex_record =
     \<lparr>Type = MGitCommitObject, MGitHash = hex_M, GitHash = hex_C, TreeHash = hex_T,
      ParentHashes = [hex_R],
      Author = Some \<lparr>Name = ''A'', Email = ''a@b'', Pubkey = ''npub'', When = 17\<rparr>,
      Committer = Some \<lparr>Name = ''A'', Email = ''a@b'', Pubkey = ''npub'', When = 17\<rparr>,
      Message = ''second'', Metadata = [(''version'', ''1.0'')]\<rparr>"

definition ex_storage :: MGitStorage where
  "ex_storage =
     \<lparr>objects = [((take 2 hex_M, drop 2 hex_M), ex_record)],
      refs = [''refs/heads/master'' \<mapsto> hex_M],
      HEAD = Some ''ref: refs/heads/master'',
      hash_mappings = Table ex_mappings,
      nostr_mappings = Missing\<rparr>"

section \<open>Stored hashes\<close>

text \<open>
  The hashes under which the directory holds an object: shard directory and entry name,
  put together again. \<open>StoreCommit\<close> only creates shard directories with names of two
  characters; \<open>sharded\<close> says that the directory has no others.
\<close>

definition stored_hashes :: "MGitStorage \<Rightarrow> string set" where
  "stored_hashes s = (\<lambda>e. fst (fst e) @ snd (fst e)) ` set (objects s)"

definition sharded :: "MGitStorage \<Rightarrow> bool" where
  "sharded s = list_all (\<lambda>e. length (fst (fst e)) = 2) (objects s)"

section \<open>Auxiliary notions for the reconstruction\<close>

text \<open>Every overlay hash of the table has at least \<open>n\<close> characters.\<close>

definition full_hashes :: "nat \<Rightarrow> NostrCommitMapping list \<Rightarrow> bool" where
  "full_hashes n mappings = list_all (\<lambda>m. n \<le> length (map_MGitHash m)) mappings"

text \<open>The references that the loop over the branches writes, in order.\<close>

definition ref_updates :: "NostrCommitMapping list \<Rightarrow> (string \<times> Hash) list \<Rightarrow> (string \<times> string) list" where
  "ref_updates mappings branches =
     concat (map (\<lambda>(branchName, hash).
        case find (\<lambda>mapping. map_GitHash mapping = Hash_String hash) mappings of
          None \<Rightarrow> []
        | Some mapping \<Rightarrow> [(branch_ref branchName, map_MGitHash mapping)]) branches)"



text \<open>
  More inputs for the examples: a fresh clone, which holds the mapping table only; the
  repository with its \<^verbatim>\<open>HEAD\<close> detached at the child commit and no branch; a table whose
  record has an empty overlay hash; a table with an abbreviated overlay hash.
\<close>

definition ex_clone :: MGitStorage where
  "ex_clone = empty_storage\<lparr>hash_mappings := Table ex_mappings\<rparr>"

definition ex_detached :: git_repo where
  "ex_detached = ex_repo\<lparr>Branches := [], Head := Some (Detached (NewHash hex_C))\<rparr>"

definition ex_empty_hash :: "NostrCommitMapping list" where
  "ex_empty_hash = [\<lparr>map_GitHash = hex_C, map_MGitHash = [], map_Pubkey = ''npub''\<rparr>]"



section \<open>Basic facts about hashes\<close>


lemma length_u32_bytes: "length (u32_bytes w) = 4"
  by (simp add: u32_bytes_def)

lemma length_state_bytes: "length (state_bytes st) = 20"
  by (cases st) (simp add: length_u32_bytes)

lemma length_sha1_sum: "length (sha1_sum m) = 20"
  by (simp add: sha1_sum_def length_state_bytes)

lemma foldl_Write: "foldl (\<lambda>h p. h @ f p) h0 ps = h0 @ concat (map f ps)"
  by (induction ps arbitrary: h0) simp_all

lemma computeMGitHash_preimage:
  "computeMGitHash commit ps pubkey = sha1_sum (mgit_preimage commit ps pubkey)"
  by (simp add: computeMGitHash_def mgit_preimage_def Let_def foldl_Write Write_def Sum_def
      sha1_New_def length_sha1_sum)

lemma length_computeMGitHash: "length (computeMGitHash commit ps pubkey) = 20"
  by (simp add: computeMGitHash_preimage length_sha1_sum)

lemma length_hex_byte: "length (hex_byte b) = 2"
  by (simp add: hex_byte_def)

lemma length_Hash_String: "length (Hash_String h) = 2 * length h"
  by (induction h) (simp_all add: Hash_String_def length_hex_byte)


section \<open>The digest input of the hash engine\<close>

text \<open>
  Claim C1. For every commit, every list of parent overlay hashes and every identity key,
  \<open>computeMGitHash\<close> is the SHA-1 digest of exactly this byte sequence: the tree hash,
  the 20 bytes of each parent overlay hash in order, the author string (name, email,
  Unix time and identity key), and the committer string, twice. The message is not part
  of it: changing the message of the commit does not change the hash.
\<close>

theorem computeMGitHash_digest_input:
  "computeMGitHash commit parentMGitHashes pubkey =
     sha1_sum
       (commit_TreeHash commit
        @ concat (map NewHash parentMGitHashes)
        @ bytes_of (sig_Name (commit_Author commit) @ '' <'' @ sig_Email (commit_Author commit)
                    @ ''> '' @ fmt_d (sig_When (commit_Author commit)) @ '' '' @ pubkey)
        @ bytes_of (committerStr commit pubkey)
        @ bytes_of (committerStr commit pubkey))
   \<and> computeMGitHash (commit\<lparr>commit_Message := message\<rparr>) parentMGitHashes pubkey =
       computeMGitHash commit parentMGitHashes pubkey"
  by (simp add: computeMGitHash_preimage mgit_preimage_def authorStr_def committerStr_def)

theorem computeMGitHash_digest_input_witness:
  "computeMGitHash ex_child [hex_R] ''npub'' =
     sha1_sum
       (commit_TreeHash ex_child
        @ concat (map NewHash [hex_R])
        @ bytes_of (sig_Name (commit_Author ex_child) @ '' <'' @ sig_Email (commit_Author ex_child)
                    @ ''> '' @ fmt_d (sig_When (commit_Author ex_child)) @ '' '' @ ''npub'')
        @ bytes_of (committerStr ex_child ''npub'')
        @ bytes_of (committerStr ex_child ''npub''))
   \<and> computeMGitHash (ex_child\<lparr>commit_Message := ''another message''\<rparr>) [hex_R] ''npub'' =
       computeMGitHash ex_child [hex_R] ''npub''"
  by (rule computeMGitHash_digest_input)

section \<open>Storing a record under a short hash\<close>

text \<open>
  Claim C10. A record whose overlay hash is not empty but shorter than two characters is
  not refused with \<open>InvalidRecord\<close>: taking the two-character shard prefix panics.
\<close>

theorem StoreCommit_short_hash_panics:
  assumes "MGitHash commit \<noteq> []" and "length (MGitHash commit) < 2"
  shows "StoreCommit s commit = Inl RuntimePanic \<and> StoreCommit s commit \<noteq> Inl InvalidRecord"
  using assms by (simp add: StoreCommit_def)

theorem StoreCommit_short_hash_panics_witness:
  "StoreCommit empty_storage (reconstructed_commit [] \<lparr>map_GitHash = hex_C, map_MGitHash = ''a'', map_Pubkey = ''npub''\<rparr> ex_child)
     = Inl RuntimePanic
   \<and> StoreCommit empty_storage (reconstructed_commit [] \<lparr>map_GitHash = hex_C, map_MGitHash = ''a'', map_Pubkey = ''npub''\<rparr> ex_child)
     \<noteq> Inl InvalidRecord"
  by (rule StoreCommit_short_hash_panics) (simp_all add: reconstructed_commit_def)

section \<open>Appending to the mapping table\<close>

lemma first_index_Some:
  "first_index P xs = Some i \<Longrightarrow> i < length xs \<and> P (xs ! i) \<and> (\<forall>j<i. \<not> P (xs ! j))"
proof (induction xs arbitrary: i)
  case Nil
  then show ?case by simp
next
  case (Cons x xs)
  show ?case
  proof (cases "P x")
    case True
    with Cons.prems show ?thesis by simp
  next
    case False
    with Cons.prems obtain i' where i': "first_index P xs = Some i'" "i = Suc i'"
      by auto
    from Cons.IH [OF i'(1)] False i'(2) show ?thesis
      by (auto simp: nth_Cons split: nat.splits)
  qed
qed

lemma first_index_None: "first_index P xs = None \<longleftrightarrow> (\<forall>x\<in>set xs. \<not> P x)"
  by (induction xs) auto

lemma add_or_update_Cons:
  "add_or_update new (m # ms) =
     (if shares_hash new m then new # ms else m # add_or_update new ms)"
  by (auto simp: add_or_update_def split: option.splits)

lemma add_or_update_Nil: "add_or_update new [] = [new]"
  by (simp add: add_or_update_def)

lemma filter_shares_empty:
  assumes "filter (shares_hash new) ms = []"
  shows "filter (\<lambda>m. map_GitHash m = map_GitHash new) ms = []"
    and "filter (\<lambda>m. map_MGitHash m = map_MGitHash new) ms = []"
  using assms by (auto simp: filter_empty_conv shares_hash_def)

lemma add_or_update_unique:
  assumes "length (filter (shares_hash new) ms) \<le> 1"
  shows "filter (\<lambda>m. map_GitHash m = map_GitHash new) (add_or_update new ms) = [new]
       \<and> filter (\<lambda>m. map_MGitHash m = map_MGitHash new) (add_or_update new ms) = [new]"
  using assms
proof (induction ms)
  case Nil
  show ?case by (simp add: add_or_update_Nil)
next
  case (Cons m ms)
  show ?case
  proof (cases "shares_hash new m")
    case True
    with Cons.prems have "filter (shares_hash new) ms = []"
      by simp
    with True show ?thesis
      by (simp add: add_or_update_Cons filter_shares_empty)
  next
    case False
    with Cons.prems have "length (filter (shares_hash new) ms) \<le> 1"
      by simp
    from Cons.IH [OF this] False show ?thesis
      by (simp add: add_or_update_Cons shares_hash_def)
  qed
qed

text \<open>
  Claim C7, as the code has it. Appending to a table overwrites in place the first record,
  in table order, that shares the source hash or the overlay hash of the new record, and
  leaves every other record as it is; the new record is appended only when no record
  shares a hash with it. \<open>StoreMapping\<close> and \<open>StoreCommitNostrMapping\<close> both write the
  table so updated. When at most one record of the table shared a hash with the new
  record, the new record is afterwards the only record with its source hash and the only
  record with its overlay hash.
\<close>

theorem StoreMapping_replaces_first_match:
  assumes new: "new = \<lparr>map_GitHash = gitHash, map_MGitHash = mgitHash, map_Pubkey = pubkey\<rparr>"
  shows "(hash_mappings s = Table mappings \<longrightarrow>
            StoreMapping s gitHash mgitHash pubkey
              = Inr (s\<lparr>hash_mappings := Table (add_or_update new mappings)\<rparr>))
       \<and> (nostr_mappings s = Table mappings \<and> gitHash = Hash_String g \<and> mgitHash = Hash_String m \<longrightarrow>
            StoreCommitNostrMapping s g m pubkey
              = Inr (s\<lparr>nostr_mappings := Table (add_or_update new mappings)\<rparr>))
       \<and> (case first_index (shares_hash new) mappings of
            Some i \<Rightarrow> i < length mappings \<and> shares_hash new (mappings ! i)
                      \<and> (\<forall>j<i. \<not> shares_hash new (mappings ! j))
                      \<and> add_or_update new mappings = mappings[i := new]
          | None \<Rightarrow> (\<forall>m\<in>set mappings. \<not> shares_hash new m)
                    \<and> add_or_update new mappings = mappings @ [new])
       \<and> (length (filter (shares_hash new) mappings) \<le> 1 \<longrightarrow>
            filter (\<lambda>m. map_GitHash m = gitHash) (add_or_update new mappings) = [new]
          \<and> filter (\<lambda>m. map_MGitHash m = mgitHash) (add_or_update new mappings) = [new])"
proof (intro conjI)
  show "hash_mappings s = Table mappings \<longrightarrow>
          StoreMapping s gitHash mgitHash pubkey
            = Inr (s\<lparr>hash_mappings := Table (add_or_update new mappings)\<rparr>)"
    by (simp add: StoreMapping_def write_mapping_def new)
  show "nostr_mappings s = Table mappings \<and> gitHash = Hash_String g \<and> mgitHash = Hash_String m \<longrightarrow>
          StoreCommitNostrMapping s g m pubkey
            = Inr (s\<lparr>nostr_mappings := Table (add_or_update new mappings)\<rparr>)"
    by (simp add: StoreCommitNostrMapping_def write_mapping_def new)
  show "case first_index (shares_hash new) mappings of
          Some i \<Rightarrow> i < length mappings \<and> shares_hash new (mappings ! i)
                    \<and> (\<forall>j<i. \<not> shares_hash new (mappings ! j))
                    \<and> add_or_update new mappings = mappings[i := new]
        | None \<Rightarrow> (\<forall>m\<in>set mappings. \<not> shares_hash new m)
                  \<and> add_or_update new mappings = mappings @ [new]"
    using first_index_Some [of "shares_hash new" mappings]
    by (auto simp: add_or_update_def first_index_None split: option.splits)
  show "length (filter (shares_hash new) mappings) \<le> 1 \<longrightarrow>
          filter (\<lambda>m. map_GitHash m = gitHash) (add_or_update new mappings) = [new]
        \<and> filter (\<lambda>m. map_MGitHash m = mgitHash) (add_or_update new mappings) = [new]"
    using add_or_update_unique [of new mappings] by (simp add: new)
qed

text \<open>
  The theorem at the table \<open>ex_mappings\<close>, whose only record has the source hash \<open>hex_C\<close>:
  appending a new overlay hash for \<open>hex_C\<close> overwrites that record.
\<close>

theorem StoreMapping_replaces_first_match_witness:
  "StoreMapping (empty_storage\<lparr>hash_mappings := Table ex_mappings\<rparr>) hex_C hex_T ''npub2''
     = Inr (empty_storage\<lparr>hash_mappings :=
              Table [\<lparr>map_GitHash = hex_C, map_MGitHash = hex_T, map_Pubkey = ''npub2''\<rparr>]\<rparr>)
   \<and> filter (\<lambda>m. map_GitHash m = hex_C)
        (add_or_update \<lparr>map_GitHash = hex_C, map_MGitHash = hex_T, map_Pubkey = ''npub2''\<rparr> ex_mappings)
       = [\<lparr>map_GitHash = hex_C, map_MGitHash = hex_T, map_Pubkey = ''npub2''\<rparr>]"
proof -
  have one: "length (filter (shares_hash \<lparr>map_GitHash = hex_C, map_MGitHash = hex_T, map_Pubkey = ''npub2''\<rparr>)
               ex_mappings) \<le> 1"
    by (simp add: ex_mappings_def)
  have upd: "add_or_update \<lparr>map_GitHash = hex_C, map_MGitHash = hex_T, map_Pubkey = ''npub2''\<rparr> ex_mappings
               = [\<lparr>map_GitHash = hex_C, map_MGitHash = hex_T, map_Pubkey = ''npub2''\<rparr>]"
    by (simp add: add_or_update_def shares_hash_def ex_mappings_def)
  from StoreMapping_replaces_first_match
         [OF refl, of "empty_storage\<lparr>hash_mappings := Table ex_mappings\<rparr>" ex_mappings hex_C hex_T "''npub2''"]
       one upd
  show ?thesis
    by simp
qed

text \<open>
  The claim as the specification states it fails: in \<open>ex_table\<close> no hash occurs twice,
  the new record \<open>(hex_C, hex_M)\<close> shares its source hash with the first record and its
  overlay hash with the second; only the first is overwritten, and the table then holds
  two records with the overlay hash \<open>hex_M\<close>.
\<close>

theorem StoreMapping_two_records_one_overlay_hash:
  "StoreMapping (empty_storage\<lparr>hash_mappings := Table ex_table\<rparr>) hex_C hex_M ''npub''
     = Inr (empty_storage\<lparr>hash_mappings := Table
         [\<lparr>map_GitHash = hex_C, map_MGitHash = hex_M, map_Pubkey = ''npub''\<rparr>,
          \<lparr>map_GitHash = hex_R, map_MGitHash = hex_M, map_Pubkey = ''npub''\<rparr>]\<rparr>)
   \<and> length (filter (\<lambda>m. map_MGitHash m = hex_M)
         [\<lparr>map_GitHash = hex_C, map_MGitHash = hex_M, map_Pubkey = ''npub''\<rparr>,
          \<lparr>map_GitHash = hex_R, map_MGitHash = hex_M, map_Pubkey = ''npub''\<rparr>]) = 2"
  by (simp add: StoreMapping_def write_mapping_def add_or_update_def shares_hash_def ex_table_def
      empty_storage_def hex_C_def hex_M_def hex_T_def hex_R_def)

section \<open>The order of the parents\<close>








section \<open>The parents of a reconstructed commit\<close>

lemma Hash_String_R: "Hash_String (NewHash hex_R) = hex_R"
  by (simp add: hex_R_def NewHash_def fromHexChar_def Let_def Hash_String_def hex_byte_def
      hextable_def)

text \<open>
  Claim C3 at the child commit of the example, whose parent has no record in the mapping
  table: reconstruction drops the parent and builds an empty parent list, where the claim
  (and \<open>MGitCommit\<close>, on the same table) puts the source hash of the parent.
\<close>

theorem reconstruct_parents_drops_unmapped:
  "reconstruct_parents ex_mappings (commit_ParentHashes ex_child) = []
   \<and> MGitCommit_parents (empty_storage\<lparr>hash_mappings := Table ex_mappings\<rparr>)
        (commit_ParentHashes ex_child) = [hex_R]"
  by (simp add: reconstruct_parents_def MGitCommit_parents_def GetMGitHashFromGit_def
      GetMappings_def ex_mappings_def ex_child_def empty_storage_def Hash_String_R)
     (simp add: hex_R_def hex_C_def)

section \<open>Listing a shard directory\<close>

lemma in_ReadDir: "n \<in> set (ReadDir s dir) \<longleftrightarrow> (dir, n) \<in> fst ` set (objects s)"
proof
  assume "n \<in> set (ReadDir s dir)"
  then obtain e where "e \<in> set (objects s)" "fst e = (dir, n)"
    using ReadDir_entry by blast
  then show "(dir, n) \<in> fst ` set (objects s)"
    by (metis imageI)
next
  assume "(dir, n) \<in> fst ` set (objects s)"
  then obtain e where e: "e \<in> set (objects s)" "fst e = (dir, n)"
    by auto
  then have "e \<in> set (filter (\<lambda>e. fst (fst e) = dir) (objects s))"
    by simp
  then have "(snd \<circ> fst) e \<in> set (map (snd \<circ> fst) (filter (\<lambda>e. fst (fst e) = dir) (objects s)))"
    by (simp only: set_map imageI)
  with e(2) show "n \<in> set (ReadDir s dir)"
    by (simp add: ReadDir_def)
qed

lemma distinct_ReadDir: "distinct (ReadDir s dir)"
  by (simp add: ReadDir_def)







section \<open>Storing a record and reading it back\<close>


section \<open>Resolving an abbreviated hash\<close>

lemma stored_hashes_entry:
  assumes "sharded s" and "h \<in> stored_hashes s"
  shows "\<exists>c. ((take 2 h, drop 2 h), c) \<in> set (objects s)"
proof -
  from assms(2) obtain e where e: "e \<in> set (objects s)" "h = fst (fst e) @ snd (fst e)"
    by (auto simp: stored_hashes_def)
  from assms(1) e(1) have "length (fst (fst e)) = 2"
    by (simp add: sharded_def list_all_iff)
  with e(2) have "take 2 h = fst (fst e)" "drop 2 h = snd (fst e)"
    by simp_all
  then have "e = ((take 2 h, drop 2 h), snd e)"
    by (simp add: prod_eq_iff)
  with e(1) show ?thesis
    by metis
qed

lemma set_findObjectByPrefix:
  assumes "sharded s" and "2 < length p"
  shows "set (findObjectByPrefix s p) = {h \<in> stored_hashes s. prefix p h}"
proof (intro set_eqI iffI)
  fix h
  assume "h \<in> set (findObjectByPrefix s p)"
  with assms(2) obtain name where name:
      "h = take 2 p @ name" "name \<in> set (ReadDir s (take 2 p))" "prefix (drop 2 p) name"
    by (auto simp: findObjectByPrefix_def Let_def)
  from name(2) obtain e where e: "e \<in> set (objects s)" "fst e = (take 2 p, name)"
    using ReadDir_entry by blast
  then have "h \<in> stored_hashes s"
    unfolding stored_hashes_def name(1) by (intro image_eqI [where x = e]) simp_all
  moreover from name(3) have "prefix (take 2 p @ drop 2 p) (take 2 p @ name)"
    by (simp only: same_prefix_prefix)
  then have "prefix p h"
    by (simp only: append_take_drop_id name(1))
  ultimately show "h \<in> {h \<in> stored_hashes s. prefix p h}"
    by simp
next
  fix h
  assume "h \<in> {h \<in> stored_hashes s. prefix p h}"
  then have h: "h \<in> stored_hashes s" "prefix p h"
    by simp_all
  from stored_hashes_entry [OF assms(1) h(1)] obtain c where
    c: "((take 2 h, drop 2 h), c) \<in> set (objects s)" ..
  from h(2) obtain r where r: "h = p @ r"
    by (auto simp: prefix_def)
  with assms(2) have dir: "take 2 h = take 2 p" and rest: "drop 2 h = drop 2 p @ r"
    by simp_all
  from c have "(take 2 h, drop 2 h) \<in> fst ` set (objects s)"
    by (metis fst_conv imageI)
  then have "drop 2 h \<in> set (ReadDir s (take 2 p))"
    by (simp add: in_ReadDir dir)
  moreover have "prefix (drop 2 p) (drop 2 h)"
    by (simp add: rest)
  moreover have "h = take 2 p @ drop 2 h"
    by (metis append_take_drop_id dir)
  ultimately show "h \<in> set (findObjectByPrefix s p)"
    using assms(2) by (auto simp: findObjectByPrefix_def Let_def)
qed

lemma distinct_findObjectByPrefix:
  assumes "2 < length p"
  shows "distinct (findObjectByPrefix s p)"
  using assms by (simp add: findObjectByPrefix_def Let_def distinct_map distinct_ReadDir inj_on_def)

lemma distinct_singleton:
  assumes "distinct xs" and "set xs = {x}"
  shows "xs = [x]"
proof (cases xs)
  case Nil
  with assms(2) show ?thesis by simp
next
  case (Cons a as)
  with assms have "a = x" "set as \<subseteq> {x}" "a \<notin> set as"
    by auto
  then have "as = []"
    by (cases as) auto
  with Cons \<open>a = x\<close> show ?thesis
    by simp
qed

lemma two_members:
  assumes "h1 \<in> set xs" and "h2 \<in> set xs" and "h1 \<noteq> h2"
  obtains a b rest where "xs = a # b # rest"
proof (cases xs)
  case Nil
  with assms(1) show ?thesis by simp
next
  case outer: (Cons a as)
  show ?thesis
  proof (cases as)
    case Nil
    with outer assms show ?thesis by auto
  next
    case (Cons b rest)
    with outer that show ?thesis by blast
  qed
qed

text \<open>
  Claim C6. In a directory whose shard directories have names of two characters, a query
  shorter than 4 characters is rejected; for a query of 4 to 39 characters, \<open>GetCommit\<close>
  fails with \<open>NotFound\<close> when no stored hash extends the query, returns the record stored
  under the only stored hash that extends it when there is exactly one, and fails with
  \<open>Ambiguous\<close> when two different stored hashes extend it.
\<close>

theorem GetCommit_prefix_resolution:
  assumes "sharded s"
  shows "(length p < 4 \<longrightarrow> GetCommit s p = Inl HashTooShort)
       \<and> (4 \<le> length p \<and> length p < 40 \<longrightarrow>
            ({h \<in> stored_hashes s. prefix p h} = {} \<longrightarrow> GetCommit s p = Inl NotFound)
          \<and> (\<forall>h. {h \<in> stored_hashes s. prefix p h} = {h} \<longrightarrow>
                (\<exists>c. map_of (objects s) (take 2 h, drop 2 h) = Some c \<and> GetCommit s p = Inr c))
          \<and> ((\<exists>h1\<in>stored_hashes s. \<exists>h2\<in>stored_hashes s. prefix p h1 \<and> prefix p h2 \<and> h1 \<noteq> h2) \<longrightarrow>
                GetCommit s p = Inl Ambiguous))"
proof (intro conjI impI allI)
  assume "length p < 4"
  then show "GetCommit s p = Inl HashTooShort"
    by (simp add: GetCommit_def)
next
  assume len: "4 \<le> length p \<and> length p < 40" and none: "{h \<in> stored_hashes s. prefix p h} = {}"
  from len have "set (findObjectByPrefix s p) = {}"
    using set_findObjectByPrefix [OF assms, of p] none by simp
  with len show "GetCommit s p = Inl NotFound"
    by (simp add: GetCommit_def)
next
  fix h
  assume len: "4 \<le> length p \<and> length p < 40" and one: "{h \<in> stored_hashes s. prefix p h} = {h}"
  from len have "set (findObjectByPrefix s p) = {h}"
    using set_findObjectByPrefix [OF assms, of p] one by simp
  moreover from len have "distinct (findObjectByPrefix s p)"
    by (intro distinct_findObjectByPrefix) simp
  ultimately have found: "findObjectByPrefix s p = [h]"
    by (intro distinct_singleton)
  from one have "h \<in> stored_hashes s"
    by blast
  from stored_hashes_entry [OF assms this] obtain c0 where
    "((take 2 h, drop 2 h), c0) \<in> set (objects s)" ..
  then have "(take 2 h, drop 2 h) \<in> fst ` set (objects s)"
    by (metis fst_conv imageI)
  then obtain c where c: "map_of (objects s) (take 2 h, drop 2 h) = Some c"
    by (metis domD dom_map_of_conv_image_fst)
  with len found have "GetCommit s p = Inr c"
    by (simp add: GetCommit_def)
  with c show "\<exists>c. map_of (objects s) (take 2 h, drop 2 h) = Some c \<and> GetCommit s p = Inr c"
    by blast
next
  assume len: "4 \<le> length p \<and> length p < 40"
    and two: "\<exists>h1\<in>stored_hashes s. \<exists>h2\<in>stored_hashes s. prefix p h1 \<and> prefix p h2 \<and> h1 \<noteq> h2"
  then obtain h1 h2 where h: "h1 \<in> set (findObjectByPrefix s p)" "h2 \<in> set (findObjectByPrefix s p)"
      "h1 \<noteq> h2"
    using set_findObjectByPrefix [OF assms, of p] by auto
  then obtain a b rest where "findObjectByPrefix s p = a # b # rest"
    by (rule two_members)
  with len show "GetCommit s p = Inl Ambiguous"
    by (simp add: GetCommit_def)
qed

section \<open>Examples of storing and resolving\<close>

lemma sharded_empty: "sharded empty_storage"
  by (simp add: sharded_def empty_storage_def)

lemma sharded_StoreCommit:
  assumes "sharded s" and "StoreCommit s commit = Inr (commit', s')"
  shows "sharded s'"
proof -
  from assms(2) have len: "2 \<le> length (MGitHash commit)"
    and s': "s' = s\<lparr>objects := AList.update (take 2 (MGitHash commit), drop 2 (MGitHash commit))
                       (commit\<lparr>Type := MGitCommitObject\<rparr>) (objects s)\<rparr>"
    by (auto simp: StoreCommit_def Let_def split: if_splits)
  have "\<forall>e\<in>set (objects s'). length (fst (fst e)) = 2"
  proof
    fix e
    assume "e \<in> set (objects s')"
    then have "fst e \<in> fst ` set (objects s')"
      by (rule imageI)
    then have "fst e = (take 2 (MGitHash commit), drop 2 (MGitHash commit)) \<or> fst e \<in> fst ` set (objects s)"
      by (simp add: s' dom_update)
    with assms(1) len show "length (fst (fst e)) = 2"
      by (auto simp: sharded_def list_all_iff)
  qed
  then show ?thesis
    by (simp add: sharded_def list_all_iff)
qed



lemma sharded_ex_storage: "sharded ex_storage"
  by (simp add: sharded_def ex_storage_def hex_M_def)

lemma stored_hashes_ex_storage: "stored_hashes ex_storage = {hex_M}"
  by (simp add: stored_hashes_def ex_storage_def)

text \<open>Queries against the directory of the example, which holds one object.\<close>

theorem GetCommit_prefix_resolution_witness:
  "sharded ex_storage
   \<and> GetCommit ex_storage ''2f'' = Inl HashTooShort
   \<and> GetCommit ex_storage ''2fcf9'' = Inr ex_record
   \<and> GetCommit ex_storage ''2fcf0'' = Inl NotFound"
proof -
  have one: "{h \<in> stored_hashes ex_storage. prefix ''2fcf9'' h} = {hex_M}"
    by (auto simp: stored_hashes_ex_storage) (simp add: hex_M_def)
  have none: "{h \<in> stored_hashes ex_storage. prefix ''2fcf0'' h} = {}"
    by (auto simp: stored_hashes_ex_storage) (simp add: hex_M_def)
  have stored: "map_of (objects ex_storage) (take 2 hex_M, drop 2 hex_M) = Some ex_record"
    by (simp add: ex_storage_def)
  from GetCommit_prefix_resolution [OF sharded_ex_storage, of "''2f''"]
  have short: "GetCommit ex_storage ''2f'' = Inl HashTooShort"
    by simp
  from GetCommit_prefix_resolution [OF sharded_ex_storage, of "''2fcf9''"] one stored
  have found: "GetCommit ex_storage ''2fcf9'' = Inr ex_record"
    by simp
  from GetCommit_prefix_resolution [OF sharded_ex_storage, of "''2fcf0''"] none
  have missing: "GetCommit ex_storage ''2fcf0'' = Inl NotFound"
    by simp
  from sharded_ex_storage short found missing show ?thesis
    by simp
qed

section \<open>Reconstruction\<close>

lemma MGitHash_reconstructed: "MGitHash (reconstructed_commit ms m gc) = map_MGitHash m"
  by (simp add: reconstructed_commit_def)

lemma StoreCommit_panic: "StoreCommit s c = Inl RuntimePanic \<Longrightarrow> length (MGitHash c) < 2"
  by (auto simp: StoreCommit_def Let_def split: if_splits)


lemma full_hashes_Cons: "full_hashes n (m # ms) \<longleftrightarrow> n \<le> length (map_MGitHash m) \<and> full_hashes n ms"
  by (simp add: full_hashes_def)


lemma full_hashes_find:
  "full_hashes n ms \<Longrightarrow> find P ms = Some m \<Longrightarrow> n \<le> length (map_MGitHash m)"
  by (auto simp: full_hashes_def list_all_iff find_Some_iff)













lemma reconstruct_commits_no_panic:
  "full_hashes 7 rest \<Longrightarrow> fst (reconstruct_commits r ms rest s) = None"
proof (induction rest arbitrary: s)
  case Nil
  show ?case by simp
next
  case (Cons m rest)
  then have len: "7 \<le> length (map_MGitHash m)" and rest: "full_hashes 7 rest"
    by (simp_all add: full_hashes_Cons)
  have IH: "fst (reconstruct_commits r ms rest s1) = None" for s1
    using rest by (rule Cons.IH)
  have no_panic: "StoreCommit s (reconstructed_commit ms m gc) \<noteq> Inl RuntimePanic" for gc
    using StoreCommit_panic [of s "reconstructed_commit ms m gc"] len
    by (auto simp: MGitHash_reconstructed)
  from len IH no_panic show ?case
    by (auto split: sum.splits option.splits)
qed

lemma map_upd_add_rev:
  "(m(k \<mapsto> v)) ++ map_of (rev us) = m ++ map_of (rev ((k, v) # us))"
  by (rule ext) (simp add: map_add_def split: option.splits)

lemma reconstruct_refs_result:
  "full_hashes 7 ms \<Longrightarrow>
     reconstruct_refs ms branches s
       = (None, s\<lparr>refs := refs s ++ map_of (rev (ref_updates ms branches))\<rparr>)"
proof (induction branches arbitrary: s)
  case Nil
  show ?case by (simp add: ref_updates_def)
next
  case (Cons b branches)
  obtain branchName hash where b: "b = (branchName, hash)"
    by (cases b)
  show ?case
  proof (cases "find (\<lambda>mapping. map_GitHash mapping = Hash_String hash) ms")
    case None
    with Cons b show ?thesis
      by (simp add: ref_updates_def)
  next
    case (Some m)
    with Cons.prems have len: "7 \<le> length (map_MGitHash m)"
      by (rule full_hashes_find)
    have upd: "ref_updates ms ((branchName, hash) # branches)
                 = (branch_ref branchName, map_MGitHash m) # ref_updates ms branches"
      by (simp add: ref_updates_def Some)
    have norm: "normRef (branch_ref branchName) = branch_ref branchName"
      by (simp add: normRef_def branch_ref_def)
    from Some len b Cons.IH [OF Cons.prems] show ?thesis
      by (simp add: upd UpdateRef_def norm Let_def map_upd_add_rev del: rev.simps)
  qed
qed








lemma reconstruct_run:
  assumes "hash_mappings s = Table ms" and "full_hashes 7 ms"
  shows "\<exists>sb. reconstructMGitObjects (Some r) s = reconstruct_head ms (Head r) sb"
proof -
  obtain sa where A: "reconstruct_commits r ms ms (Initialize s) = (None, sa)"
    using reconstruct_commits_no_panic [OF assms(2), of r ms "Initialize s"] by (metis prod.collapse)
  have "reconstructMGitObjects (Some r) s
          = reconstruct_head ms (Head r) (sa\<lparr>refs := refs sa ++ map_of (rev (ref_updates ms (Branches r)))\<rparr>)"
    by (simp add: reconstructMGitObjects_def assms(1) A reconstruct_refs_result [OF assms(2)])
  then show ?thesis ..
qed

text \<open>
  Claim C8, as the code has it. With a mapping table whose overlay hashes have at least 7
  characters and the underlying \<^verbatim>\<open>HEAD\<close> detached at a source hash: when a record of the
  table has that source hash, the reconstruction succeeds and the content of the overlay
  \<^verbatim>\<open>HEAD\<close> is exactly the overlay hash of the first such record; when none has, the
  reconstruction fails with the error of the detached \<^verbatim>\<open>HEAD\<close>.
\<close>

theorem reconstruct_detached_HEAD:
  assumes "hash_mappings s = Table mappings" and "full_hashes 7 mappings"
    and "Head repo = Some (Detached hash)"
  shows "case find (\<lambda>mapping. map_GitHash mapping = Hash_String hash) mappings of
           Some mapping \<Rightarrow>
             fst (reconstructMGitObjects (Some repo) s) = None
             \<and> HEAD (snd (reconstructMGitObjects (Some repo) s)) = Some (map_MGitHash mapping)
         | None \<Rightarrow> fst (reconstructMGitObjects (Some repo) s) = Some DetachedHeadUnmapped"
proof -
  from reconstruct_run [OF assms(1,2)] obtain sb where
    run: "reconstructMGitObjects (Some repo) s = reconstruct_head mappings (Head repo) sb"
    by blast
  show ?thesis
  proof (cases "find (\<lambda>mapping. map_GitHash mapping = Hash_String hash) mappings")
    case None
    then show ?thesis
      by (simp add: run assms(3) reconstruct_head_def)
  next
    case (Some m)
    with assms(2) have "7 \<le> length (map_MGitHash m)"
      by (rule full_hashes_find)
    with Some show ?thesis
      by (auto simp: run assms(3) reconstruct_head_def Let_def)
  qed
qed

lemma NewHash_C: "NewHash hex_C = [51, 51, 51, 51, 51, 51, 51, 51, 51, 51, 51, 51, 51, 51, 51, 51, 51, 51, 51, 51]"
  by (simp add: hex_C_def NewHash_def fromHexChar_def Let_def)

lemma NewHash_R: "NewHash hex_R = [17, 17, 17, 17, 17, 17, 17, 17, 17, 17, 17, 17, 17, 17, 17, 17, 17, 17, 17, 17]"
  by (simp add: hex_R_def NewHash_def fromHexChar_def Let_def)

lemma Hash_String_C: "Hash_String (NewHash hex_C) = hex_C"
  by (simp add: NewHash_C Hash_String_def hex_byte_def hextable_def) (simp add: hex_C_def)

lemma CommitObject_ex_repo:
  "CommitObject ex_repo (NewHash hex_C) = Some ex_child"
  "CommitObject ex_repo (NewHash hex_R) = Some ex_root"
  by (simp_all add: ex_repo_def NewHash_C NewHash_R)

lemmas ex_defs = hex_C_def hex_R_def hex_T_def hex_M_def ex_sig_def ex_root_def ex_child_def
  ex_repo_def ex_mappings_def ex_record_def empty_storage_def ex_clone_def MGitCommitObject_def

lemmas eval_defs = NewHash_def fromHexChar_def Hash_String_def hex_byte_def hextable_def Let_def
  GetCommit_def findObjectByPrefix_def ReadDir_def StoreCommit_def Initialize_def
  reconstructed_commit_def reconstruct_parents_def UpdateRef_def normRef_def branch_ref_def
  reconstruct_head_def reconstructMGitObjects_def

text \<open>
  The reconstruction of a fresh clone of the example repository. The rebuilt record of
  the child has no parent, where the record that \<open>MGitCommit\<close> stored (\<open>ex_record\<close>) has
  the source hash of the root.
\<close>

lemma reconstruct_ex_clone: "reconstructMGitObjects (Some ex_repo) ex_clone =
   (None,
    \<lparr>objects = [((take 2 hex_M, drop 2 hex_M), ex_record\<lparr>ParentHashes := []\<rparr>)],
     refs = [''refs/heads/master'' \<mapsto> hex_M],
     HEAD = Some ''ref: refs/heads/master'',
     hash_mappings = Table ex_mappings,
     nostr_mappings = Missing\<rparr>)"
  by (simp add: ex_defs eval_defs)

text \<open>
  The claim as the specification states it fails when the record of the detached source
  hash has an empty overlay hash: the record is in the table, and the reconstruction
  fails as if it were not, since the empty string is what the lookup returns for no
  record.
\<close>

theorem reconstruct_detached_empty_hash:
  "find (\<lambda>mapping. map_GitHash mapping = Hash_String (NewHash hex_C)) ex_empty_hash
     = Some \<lparr>map_GitHash = hex_C, map_MGitHash = [], map_Pubkey = ''npub''\<rparr>
   \<and> Head ex_detached = Some (Detached (NewHash hex_C))
   \<and> fst (reconstructMGitObjects (Some ex_detached) (empty_storage\<lparr>hash_mappings := Table ex_empty_hash\<rparr>))
       = Some DetachedHeadUnmapped"
  by (simp add: ex_detached_def ex_empty_hash_def ex_defs eval_defs)

text \<open>The example repository with its \<^verbatim>\<open>HEAD\<close> detached at the child commit.\<close>

theorem reconstruct_detached_HEAD_witness:
  "fst (reconstructMGitObjects (Some ex_detached) ex_clone) = None
   \<and> HEAD (snd (reconstructMGitObjects (Some ex_detached) ex_clone)) = Some hex_M"
proof -
  have maps: "hash_mappings ex_clone = Table ex_mappings"
    by (simp add: ex_clone_def empty_storage_def)
  have full: "full_hashes 7 ex_mappings"
    by (simp add: full_hashes_def ex_mappings_def hex_M_def)
  have head: "Head ex_detached = Some (Detached (NewHash hex_C))"
    by (simp add: ex_detached_def)
  have found: "find (\<lambda>mapping. map_GitHash mapping = Hash_String (NewHash hex_C)) ex_mappings
                 = Some \<lparr>map_GitHash = hex_C, map_MGitHash = hex_M, map_Pubkey = ''npub''\<rparr>"
    by (simp add: Hash_String_C ex_mappings_def)
  from reconstruct_detached_HEAD [OF maps full head] found show ?thesis
    by simp
qed



end
